theory Spec2Isabelle
  imports Complex_Main
begin

section \<open>Earthquake triangulator: the multilateration core of earthquake.py\<close>

text \<open>
  The program places stations in a disk, draws a true source point below them, derives
  noisy relative arrival times and fits a point to them with a least-squares routine.
  Floating-point numbers are modelled as real numbers, a row \<open>[x, y, z]\<close> of a numpy
  array as a \<open>vec3\<close>, a one-dimensional array as a list, and a Python exception as the
  left summand of a result. Division by the wave speed is numpy's only for a speed
  other than zero (numpy yields inf or nan there), so the statements about the values
  of times carry that hypothesis.
\<close>

subsection \<open>Arrays and points\<close>

datatype vec3 = Vec3 (vx: real) (vy: real) (vz: real)

datatype py_error = ValueError | IndexError

definition sub3 :: "vec3 \<Rightarrow> vec3 \<Rightarrow> vec3" where
  "sub3 a b = Vec3 (vx a - vx b) (vy a - vy b) (vz a - vz b)"

definition add3 :: "vec3 \<Rightarrow> vec3 \<Rightarrow> vec3" where
  "add3 a b = Vec3 (vx a + vx b) (vy a + vy b) (vz a + vz b)"

text \<open>\<open>np.linalg.norm\<close> of one row: the Euclidean length.\<close>

definition norm3 :: "vec3 \<Rightarrow> real" where
  "norm3 a = sqrt ((vx a)\<^sup>2 + (vy a)\<^sup>2 + (vz a)\<^sup>2)"

text \<open>\<open>np.linalg.norm(stations - p, axis=1) / v\<close>: the travel time from \<open>p\<close> to each station.\<close>

definition travel_times :: "vec3 list \<Rightarrow> vec3 \<Rightarrow> real \<Rightarrow> real list" where
  "travel_times stations p v = map (\<lambda>s. norm3 (sub3 s p) / v) stations"

text \<open>Indexing a one-dimensional array: a negative index counts from the end.\<close>

definition np_index :: "'a list \<Rightarrow> int \<Rightarrow> py_error + 'a" where
  "np_index xs i =
     (if 0 \<le> i \<and> i < int (length xs) then Inr (xs ! nat i)
      else if - int (length xs) \<le> i \<and> i < 0 then Inr (xs ! nat (int (length xs) + i))
      else Inl IndexError)"

text \<open>
  An arithmetic operator on two one-dimensional arrays: elementwise for equal lengths,
  an array of length one is broadcast, any other pair of shapes raises ValueError.
\<close>

definition np_broadcast ::
  "(real \<Rightarrow> real \<Rightarrow> real) \<Rightarrow> real list \<Rightarrow> real list \<Rightarrow> py_error + real list" where
  "np_broadcast f a b =
     (if length a = length b then Inr (map2 f a b)
      else if length b = 1 then Inr (map (\<lambda>x. f x (hd b)) a)
      else if length a = 1 then Inr (map (\<lambda>y. f (hd a) y) b)
      else Inl ValueError)"

definition np_sub :: "real list \<Rightarrow> real list \<Rightarrow> py_error + real list" where
  "np_sub a b = np_broadcast (\<lambda>x y. x - y) a b"

definition np_add :: "real list \<Rightarrow> real list \<Rightarrow> py_error + real list" where
  "np_add a b = np_broadcast (\<lambda>x y. x + y) a b"

text \<open>\<open>t - t[ref_index]\<close>: the times relative to the reference station.\<close>

definition relative_to :: "real list \<Rightarrow> int \<Rightarrow> py_error + real list" where
  "relative_to t ref_index =
     (case np_index t ref_index of
        Inl e \<Rightarrow> Inl e
      | Inr t_ref \<Rightarrow> Inr (map (\<lambda>x. x - t_ref) t))"

subsection \<open>The residual model\<close>

definition residuals_time ::
  "vec3 \<Rightarrow> vec3 list \<Rightarrow> real list \<Rightarrow> real \<Rightarrow> int \<Rightarrow> py_error + real list" where
  "residuals_time p stations rel_times v ref_index =
     (let t_pred = travel_times stations p v
      in case relative_to t_pred ref_index of
           Inl e \<Rightarrow> Inl e
         | Inr t_rel_pred \<Rightarrow> np_sub t_rel_pred rel_times)"

subsection \<open>The random source\<close>

text \<open>
  The program draws from numpy's process-wide generator. Its algorithm is not part of
  the repository, so the generator is a parameter: a state type \<open>'s\<close>, the reseeding
  from operating-system entropy \<open>'e\<close> that \<open>np.random.seed()\<close> performs, and the two
  primitive draws, each returning the advanced state.
\<close>

record ('s, 'e) np_random =
  seed_from :: "'e \<Rightarrow> 's"
  random_sample :: "'s \<Rightarrow> real \<times> 's"
  standard_normal :: "'s \<Rightarrow> real \<times> 's"

text \<open>\<open>np.random.uniform(low, high)\<close>: one uniform draw, scaled.\<close>

definition np_uniform :: "('s, 'e) np_random \<Rightarrow> real \<Rightarrow> real \<Rightarrow> 's \<Rightarrow> real \<times> 's" where
  "np_uniform G low high s = (let (u, s') = random_sample G s in (low + (high - low) * u, s'))"

text \<open>\<open>np.random.normal(loc, scale, size=k)\<close>: \<open>k\<close> normal draws in order; a negative
  scale raises ValueError.\<close>

fun normal_draws :: "('s, 'e) np_random \<Rightarrow> real \<Rightarrow> real \<Rightarrow> nat \<Rightarrow> 's \<Rightarrow> real list \<times> 's" where
  "normal_draws G loc scale 0 s = ([], s)"
| "normal_draws G loc scale (Suc k) s =
     (let (g, s1) = standard_normal G s;
          (rest, s2) = normal_draws G loc scale k s1
      in ((loc + scale * g) # rest, s2))"

definition np_normal ::
  "('s, 'e) np_random \<Rightarrow> real \<Rightarrow> real \<Rightarrow> nat \<Rightarrow> 's \<Rightarrow> py_error + (real list \<times> 's)" where
  "np_normal G loc scale k s =
     (if scale < 0 then Inl ValueError else Inr (normal_draws G loc scale k s))"

text \<open>A random source that replays a recorded list of draws (zero once the list is
  used up): it runs the generator on concrete draws.\<close>

fun next_draw :: "real list \<Rightarrow> real \<times> real list" where
  "next_draw [] = (0, [])"
| "next_draw (x # xs) = (x, xs)"

definition replay :: "(real list, real list) np_random" where
  "replay = \<lparr>seed_from = (\<lambda>e. e), random_sample = next_draw, standard_normal = next_draw\<rparr>"

subsection \<open>The scenario generator\<close>

text \<open>The loop of \<open>gen_station_positions\<close> over \<open>range(n)\<close>: three draws per station.\<close>

fun gen_station_positions ::
  "('s, 'e) np_random \<Rightarrow> nat \<Rightarrow> real \<Rightarrow> 's \<Rightarrow> vec3 list \<times> 's" where
  "gen_station_positions G 0 rad s = ([], s)"
| "gen_station_positions G (Suc k) rad s =
     (let (u1, s1) = random_sample G s;
          r = sqrt u1 * rad;
          (u2, s2) = random_sample G s1;
          theta = u2 * 2 * pi;
          x = r * cos theta;
          y = r * sin theta;
          (z, s3) = np_uniform G (- 500) 500 s2;
          (stations, s4) = gen_station_positions G k rad s3
      in (Vec3 x y z # stations, s4))"

definition gen_true_point ::
  "('s, 'e) np_random \<Rightarrow> real \<Rightarrow> real \<Rightarrow> real \<Rightarrow> 's \<Rightarrow> vec3 \<times> 's" where
  "gen_true_point G rad dmin dmax s =
     (let (u1, s1) = random_sample G s;
          r = sqrt u1 * rad;
          (u2, s2) = random_sample G s1;
          theta = u2 * 2 * pi;
          x = r * cos theta;
          y = r * sin theta;
          (d, s3) = np_uniform G dmin dmax s2
      in (Vec3 x y (- d), s3))"

text \<open>\<open>np.argmin\<close>: the first index of the least entry; an empty array raises ValueError.\<close>

fun argmin_scan :: "real list \<Rightarrow> nat \<Rightarrow> nat \<Rightarrow> real \<Rightarrow> nat" where
  "argmin_scan [] i best m = best"
| "argmin_scan (t # ts) i best m =
     (if t < m then argmin_scan ts (Suc i) i t else argmin_scan ts (Suc i) best m)"

definition np_argmin :: "real list \<Rightarrow> py_error + nat" where
  "np_argmin ts = (case ts of [] \<Rightarrow> Inl ValueError | t # ts' \<Rightarrow> Inr (argmin_scan ts' 1 0 t))"

text \<open>
  What \<open>main\<close> derives from the stations, the true point and the noise it drew: the true
  travel times, the reference index, the noisy travel times and the measured relative
  times. An empty station array fails in the first subtraction.
\<close>

record scenario =
  sc_stations :: "vec3 list"
  sc_true_point :: vec3
  sc_true_times :: "real list"
  sc_ref_index :: nat
  sc_noisy_times :: "real list"
  sc_measured_rel_times :: "real list"

definition main_measure ::
  "vec3 list \<Rightarrow> vec3 \<Rightarrow> real \<Rightarrow> real list \<Rightarrow> py_error + scenario" where
  "main_measure stations true_point v noise =
     (if stations = [] then Inl ValueError
      else
        let true_times = travel_times stations true_point v
        in case np_argmin true_times of
             Inl e \<Rightarrow> Inl e
           | Inr ref_index \<Rightarrow>
               (case np_add true_times noise of
                  Inl e \<Rightarrow> Inl e
                | Inr noisy_times \<Rightarrow>
                    (case relative_to noisy_times (int ref_index) of
                       Inl e \<Rightarrow> Inl e
                     | Inr measured_rel_times \<Rightarrow>
                         Inr \<lparr>sc_stations = stations, sc_true_point = true_point,
                              sc_true_times = true_times, sc_ref_index = ref_index,
                              sc_noisy_times = noisy_times,
                              sc_measured_rel_times = measured_rel_times\<rparr>)))"

text \<open>The constants of \<open>main\<close>, as a configuration.\<close>

record config =
  cfg_n :: int
  cfg_rad :: real
  cfg_dmin :: real
  cfg_dmax :: real
  cfg_v :: real
  cfg_noise_std :: real

definition main_config :: config where
  "main_config = \<lparr>cfg_n = 7, cfg_rad = 30000, cfg_dmin = 500, cfg_dmax = 10000,
                   cfg_v = 5000, cfg_noise_std = 1 / 100\<rparr>"

text \<open>The generating part of \<open>main\<close>: stations, true point, then one normal draw per
  travel time, all from the one generator state, which is handed on.\<close>

definition main_generate ::
  "('s, 'e) np_random \<Rightarrow> config \<Rightarrow> 's \<Rightarrow> py_error + (scenario \<times> 's)" where
  "main_generate G cfg s =
     (let (stations, s1) = gen_station_positions G (nat (cfg_n cfg)) (cfg_rad cfg) s;
          (true_point, s2) = gen_true_point G (cfg_rad cfg) (cfg_dmin cfg) (cfg_dmax cfg) s1
      in if stations = [] then Inl ValueError
         else case np_normal G 0 (cfg_noise_std cfg) (length stations) s2 of
                Inl e \<Rightarrow> Inl e
              | Inr (noise, s3) \<Rightarrow>
                  (case main_measure stations true_point (cfg_v cfg) noise of
                     Inl e \<Rightarrow> Inl e
                   | Inr sc \<Rightarrow> Inr (sc, s3)))"

text \<open>
  \<open>main\<close> up to the measured times. The state \<open>s0\<close> is whatever the process-wide
  generator held when \<open>main\<close> was called; \<open>np.random.seed()\<close> replaces it by a state made
  from operating-system entropy \<open>e\<close>.
\<close>

definition main_scenario ::
  "('s, 'e) np_random \<Rightarrow> 'e \<Rightarrow> 's \<Rightarrow> py_error + (scenario \<times> 's)" where
  "main_scenario G e s0 = (let s = seed_from G e in main_generate G main_config s)"

subsection \<open>The initial guess and the solve\<close>

text \<open>\<open>np.mean(stations, axis=0)\<close>: the column sums divided by the number of rows. For
  an array without rows numpy yields nan; \<open>main\<close> reaches this line only with stations
  that the travel-time computation accepted.\<close>

definition np_mean_axis0 :: "vec3 list \<Rightarrow> vec3" where
  "np_mean_axis0 rows =
     (let total = foldl add3 (Vec3 0 0 0) rows; k = real (length rows)
      in Vec3 (vx total / k) (vy total / k) (vz total / k))"

definition main_initial_guess :: "vec3 list \<Rightarrow> vec3" where
  "main_initial_guess stations =
     (let centroid = np_mean_axis0 stations in Vec3 (vx centroid) (vy centroid) (- 5000))"

text \<open>
  \<open>scipy.optimize.least_squares\<close> is a library routine outside the repository: a
  parameter that takes the residual function and the initial guess and returns a result
  object or raises. \<open>main\<close> reads the field \<open>x\<close> of the result and nothing else.
\<close>

record optimize_result =
  res_x :: vec3
  res_status :: int
  res_success :: bool

type_synonym solver = "(vec3 \<Rightarrow> py_error + real list) \<Rightarrow> vec3 \<Rightarrow> py_error + optimize_result"

definition main_solve ::
  "solver \<Rightarrow> vec3 list \<Rightarrow> real list \<Rightarrow> real \<Rightarrow> nat \<Rightarrow> py_error + vec3" where
  "main_solve least_squares stations measured_rel_times v ref_index =
     (let p0 = main_initial_guess stations
      in case least_squares
                (\<lambda>p. residuals_time p stations measured_rel_times v (int ref_index)) p0 of
           Inl e \<Rightarrow> Inl e
         | Inr res_opt \<Rightarrow> Inr (res_x res_opt))"

text \<open>The error \<open>main\<close> prints: the distance between the true and the estimated point.\<close>

definition location_error :: "vec3 \<Rightarrow> vec3 \<Rightarrow> real" where
  "location_error true_point est_point = norm3 (sub3 true_point est_point)"

text \<open>
  The condition on station geometry that the specification of recovery uses (it is
  not a function of the program): four points lie in one plane when the triple product
  of their differences is zero.
\<close>

definition coplanar :: "vec3 \<Rightarrow> vec3 \<Rightarrow> vec3 \<Rightarrow> vec3 \<Rightarrow> bool" where
  "coplanar a b c d =
     (let u = sub3 b a; w = sub3 c a; t = sub3 d a
      in vx u * (vy w * vz t - vz w * vy t)
           - vy u * (vx w * vz t - vz w * vx t)
           + vz u * (vx w * vy t - vy w * vx t) = 0)"

subsection \<open>Properties of the residual model\<close>

lemma np_index_nat: "i < length xs \<Longrightarrow> np_index xs (int i) = Inr (xs ! i)"
  by (simp add: np_index_def)

lemma relative_to_nat:
  "i < length t \<Longrightarrow> relative_to t (int i) = Inr (map (\<lambda>x. x - t ! i) t)"
  by (simp add: relative_to_def np_index_nat)

lemma length_travel_times: "length (travel_times stations p v) = length stations"
  by (simp add: travel_times_def)

lemma nth_travel_times:
  "i < length stations \<Longrightarrow> travel_times stations p v ! i = norm3 (sub3 (stations ! i) p) / v"
  by (simp add: travel_times_def)

subsection \<open>The reference index\<close>

text \<open>The scan keeps the first index of the least entry seen so far.\<close>

lemma argmin_scan_spec:
  assumes "i = length pre" and "best < i" and "pre ! best = m"
    and "\<forall>j<i. m \<le> pre ! j" and "\<forall>j<best. m < pre ! j"
  shows "argmin_scan ts i best m < length (pre @ ts)
       \<and> (\<forall>j<length (pre @ ts). (pre @ ts) ! argmin_scan ts i best m \<le> (pre @ ts) ! j)
       \<and> (\<forall>j<argmin_scan ts i best m. (pre @ ts) ! argmin_scan ts i best m < (pre @ ts) ! j)"
  using assms
proof (induction ts arbitrary: pre i best m)
  case Nil
  then show ?case by simp
next
  case (Cons t ts)
  let ?pre = "pre @ [t]"
  show ?case
  proof (cases "t < m")
    case True
    have a: "Suc i = length ?pre" using Cons.prems(1) by simp
    have b: "i < Suc i" by simp
    have c: "?pre ! i = t" using Cons.prems(1) by simp
    have d: "\<forall>j<Suc i. t \<le> ?pre ! j"
      using Cons.prems(1,4) True by (fastforce simp: nth_append less_Suc_eq)
    have e: "\<forall>j<i. t < ?pre ! j"
      using Cons.prems(1,4) True by (fastforce simp: nth_append)
    from Cons.IH[OF a b c d e] True show ?thesis by simp
  next
    case False
    have a: "Suc i = length ?pre" using Cons.prems(1) by simp
    have b: "best < Suc i" using Cons.prems(2) by simp
    have c: "?pre ! best = m" using Cons.prems(1,2,3) by (simp add: nth_append)
    have d: "\<forall>j<Suc i. m \<le> ?pre ! j"
      using Cons.prems(1,4) False by (fastforce simp: nth_append less_Suc_eq)
    have e: "\<forall>j<best. m < ?pre ! j"
      using Cons.prems(1,2,5) by (auto simp: nth_append)
    from Cons.IH[OF a b c d e] False show ?thesis by simp
  qed
qed

lemma np_argmin_spec:
  assumes "ts \<noteq> []"
  shows "\<exists>r. np_argmin ts = Inr r \<and> r < length ts
           \<and> (\<forall>j<length ts. ts ! r \<le> ts ! j) \<and> (\<forall>j<r. ts ! r < ts ! j)"
proof -
  from assms obtain t ts' where ts: "ts = t # ts'" by (cases ts) auto
  have "argmin_scan ts' 1 0 t < length ([t] @ ts')
       \<and> (\<forall>j<length ([t] @ ts'). ([t] @ ts') ! argmin_scan ts' 1 0 t \<le> ([t] @ ts') ! j)
       \<and> (\<forall>j<argmin_scan ts' 1 0 t. ([t] @ ts') ! argmin_scan ts' 1 0 t < ([t] @ ts') ! j)"
    by (rule argmin_scan_spec) simp_all
  then show ?thesis by (simp add: ts np_argmin_def)
qed

text \<open>
  C1. For a candidate point \<open>p\<close>, \<open>n\<close> stations, \<open>n\<close> measured relative times, a speed
  \<open>v > 0\<close> and a reference index below \<open>n\<close>, \<open>residuals_time\<close> returns a vector of
  length \<open>n\<close> whose entry \<open>i\<close> is the predicted travel time to station \<open>i\<close> minus the
  predicted travel time to the reference station, minus the measured relative time \<open>i\<close>.
\<close>

theorem residuals_time_entries:
  assumes "0 < v" and "ref < length stations" and "length rel_times = length stations"
  shows "\<exists>r. residuals_time p stations rel_times v (int ref) = Inr r
           \<and> length r = length stations
           \<and> (\<forall>i < length stations.
                 r ! i = (norm3 (sub3 (stations ! i) p) / v
                            - norm3 (sub3 (stations ! ref) p) / v) - rel_times ! i)"
proof -
  let ?t = "travel_times stations p v"
  let ?r = "map2 (\<lambda>x y. x - y) (map (\<lambda>x. x - ?t ! ref) ?t) rel_times"
  have rel: "relative_to ?t (int ref) = Inr (map (\<lambda>x. x - ?t ! ref) ?t)"
    using assms(2) by (simp add: relative_to_nat length_travel_times)
  have res: "residuals_time p stations rel_times v (int ref) = Inr ?r"
    using assms(3) by (simp add: residuals_time_def rel np_sub_def np_broadcast_def length_travel_times)
  have len: "length ?r = length stations"
    using assms(3) by (simp add: length_travel_times)
  have ent: "?r ! i = (norm3 (sub3 (stations ! i) p) / v
                 - norm3 (sub3 (stations ! ref) p) / v) - rel_times ! i"
    if "i < length stations" for i
    using that assms(2,3) by (simp add: length_travel_times nth_travel_times)
  show ?thesis using res len ent by blast
qed

theorem residuals_time_entries_witness:
  "\<exists>r. residuals_time (Vec3 0 0 0) [Vec3 1 0 0, Vec3 0 2 0] [0, 1] 1 (int 1) = Inr r
     \<and> length r = 2"
proof -
  have "\<exists>r. residuals_time (Vec3 0 0 0) [Vec3 1 0 0, Vec3 0 2 0] [0, 1] 1 (int 1) = Inr r
          \<and> length r = length [Vec3 1 0 0, Vec3 0 2 0]
          \<and> (\<forall>i < length [Vec3 1 0 0, Vec3 0 2 0].
                r ! i = (norm3 (sub3 ([Vec3 1 0 0, Vec3 0 2 0] ! i) (Vec3 0 0 0)) / 1
                           - norm3 (sub3 ([Vec3 1 0 0, Vec3 0 2 0] ! 1) (Vec3 0 0 0)) / 1)
                        - [0, 1] ! i)"
    by (rule residuals_time_entries) simp_all
  then obtain r where "residuals_time (Vec3 0 0 0) [Vec3 1 0 0, Vec3 0 2 0] [0, 1] 1 (int 1) = Inr r"
    and "length r = length [Vec3 1 0 0, Vec3 0 2 0]"
    by blast
  then show ?thesis by simp
qed

subsection \<open>Lengths and successful runs of the generator\<close>

lemma length_gen_station_positions:
  "length (fst (gen_station_positions G k rad s)) = k"
  by (induction k arbitrary: s) (simp_all add: split_def Let_def)

lemma length_normal_draws: "length (fst (normal_draws G loc scale k s)) = k"
  by (induction k arbitrary: s) (simp_all add: split_def Let_def)

lemma np_add_same_length:
  "length a = length b \<Longrightarrow> np_add a b = Inr (map2 (\<lambda>x y. x + y) a b)"
  by (simp add: np_add_def np_broadcast_def)

lemma main_measure_ok:
  assumes "stations \<noteq> []" and "length noise = length stations"
  shows "\<exists>ref. np_argmin (travel_times stations tp v) = Inr ref \<and> ref < length stations
          \<and> main_measure stations tp v noise =
              Inr \<lparr>sc_stations = stations, sc_true_point = tp,
                   sc_true_times = travel_times stations tp v, sc_ref_index = ref,
                   sc_noisy_times = map2 (\<lambda>x y. x + y) (travel_times stations tp v) noise,
                   sc_measured_rel_times =
                     map (\<lambda>x. x - map2 (\<lambda>x y. x + y) (travel_times stations tp v) noise ! ref)
                       (map2 (\<lambda>x y. x + y) (travel_times stations tp v) noise)\<rparr>"
proof -
  let ?tt = "travel_times stations tp v"
  have ne: "?tt \<noteq> []" using assms(1) by (simp add: travel_times_def)
  from np_argmin_spec[OF ne] obtain ref where
    ref: "np_argmin ?tt = Inr ref" and lt: "ref < length ?tt" by blast
  have add: "np_add ?tt noise = Inr (map2 (\<lambda>x y. x + y) ?tt noise)"
    using assms(2) by (simp add: np_add_same_length length_travel_times)
  have rel: "relative_to (map2 (\<lambda>x y. x + y) ?tt noise) (int ref)
      = Inr (map (\<lambda>x. x - map2 (\<lambda>x y. x + y) ?tt noise ! ref) (map2 (\<lambda>x y. x + y) ?tt noise))"
    using lt assms(2) by (intro relative_to_nat) (simp add: length_travel_times)
  have "main_measure stations tp v noise =
              Inr \<lparr>sc_stations = stations, sc_true_point = tp,
                   sc_true_times = ?tt, sc_ref_index = ref,
                   sc_noisy_times = map2 (\<lambda>x y. x + y) ?tt noise,
                   sc_measured_rel_times =
                     map (\<lambda>x. x - map2 (\<lambda>x y. x + y) ?tt noise ! ref)
                       (map2 (\<lambda>x y. x + y) ?tt noise)\<rparr>"
    using assms(1) by (simp add: main_measure_def Let_def ref add rel)
  with ref lt show ?thesis by (auto simp: length_travel_times)
qed

lemma relative_to_Inr:
  assumes "relative_to t (int r) = Inr m"
  shows "r < length t \<and> m = map (\<lambda>x. x - t ! r) t"
  using assms by (auto simp: relative_to_def np_index_def split: if_splits)

lemma np_argmin_Inr:
  assumes "np_argmin ts = Inr r"
  shows "r < length ts \<and> (\<forall>j<length ts. ts ! r \<le> ts ! j) \<and> (\<forall>j<r. ts ! r < ts ! j)"
proof -
  have "ts \<noteq> []" using assms by (auto simp: np_argmin_def)
  from np_argmin_spec[OF this] assms show ?thesis by auto
qed

lemma main_measure_Inr:
  assumes "main_measure stations tp v noise = Inr sc"
  shows "stations \<noteq> [] \<and> sc_stations sc = stations \<and> sc_true_point sc = tp
       \<and> sc_true_times sc = travel_times stations tp v
       \<and> np_argmin (travel_times stations tp v) = Inr (sc_ref_index sc)
       \<and> np_add (travel_times stations tp v) noise = Inr (sc_noisy_times sc)
       \<and> relative_to (sc_noisy_times sc) (int (sc_ref_index sc)) = Inr (sc_measured_rel_times sc)"
  using assms by (auto simp: main_measure_def Let_def split: if_splits sum.splits)

lemma main_measure_ref_zero:
  assumes "main_measure stations tp v noise = Inr sc"
  shows "sc_ref_index sc < length (sc_measured_rel_times sc)
       \<and> sc_measured_rel_times sc ! sc_ref_index sc = 0"
proof -
  from main_measure_Inr[OF assms]
  have "relative_to (sc_noisy_times sc) (int (sc_ref_index sc)) = Inr (sc_measured_rel_times sc)"
    by simp
  from relative_to_Inr[OF this] show ?thesis by simp
qed

lemma main_generate_Inr:
  assumes "main_generate G cfg s = Inr (sc, s')"
  shows "\<exists>noise. np_normal G 0 (cfg_noise_std cfg) (nat (cfg_n cfg))
            (snd (gen_true_point G (cfg_rad cfg) (cfg_dmin cfg) (cfg_dmax cfg)
               (snd (gen_station_positions G (nat (cfg_n cfg)) (cfg_rad cfg) s)))) = Inr (noise, s')
          \<and> length noise = nat (cfg_n cfg)
          \<and> main_measure (fst (gen_station_positions G (nat (cfg_n cfg)) (cfg_rad cfg) s))
               (fst (gen_true_point G (cfg_rad cfg) (cfg_dmin cfg) (cfg_dmax cfg)
                  (snd (gen_station_positions G (nat (cfg_n cfg)) (cfg_rad cfg) s))))
               (cfg_v cfg) noise = Inr sc"
proof -
  let ?g = "gen_station_positions G (nat (cfg_n cfg)) (cfg_rad cfg) s"
  let ?p = "gen_true_point G (cfg_rad cfg) (cfg_dmin cfg) (cfg_dmax cfg) (snd ?g)"
  have len: "length (fst ?g) = nat (cfg_n cfg)" by (rule length_gen_station_positions)
  from assms obtain noise where
    n: "np_normal G 0 (cfg_noise_std cfg) (length (fst ?g)) (snd ?p) = Inr (noise, s')"
    and m: "main_measure (fst ?g) (fst ?p) (cfg_v cfg) noise = Inr sc"
    by (auto simp: main_generate_def Let_def split_def split: if_splits sum.splits)
  from n have "length noise = nat (cfg_n cfg)"
    using length_normal_draws[of G 0 "cfg_noise_std cfg" "nat (cfg_n cfg)" "snd ?p"]
    by (auto simp: np_normal_def len split: if_splits)
  with n m len show ?thesis by auto
qed

lemma main_generate_ok:
  assumes "1 \<le> cfg_n cfg" and "0 \<le> cfg_noise_std cfg"
  shows "\<exists>sc s'. main_generate G cfg s = Inr (sc, s')"
proof -
  let ?g = "gen_station_positions G (nat (cfg_n cfg)) (cfg_rad cfg) s"
  let ?p = "gen_true_point G (cfg_rad cfg) (cfg_dmin cfg) (cfg_dmax cfg) (snd ?g)"
  let ?d = "normal_draws G 0 (cfg_noise_std cfg) (length (fst ?g)) (snd ?p)"
  have len: "length (fst ?g) = nat (cfg_n cfg)" by (rule length_gen_station_positions)
  then have ne: "fst ?g \<noteq> []" using assms(1) by auto
  have nl: "length (fst ?d) = length (fst ?g)" by (rule length_normal_draws)
  from main_measure_ok[OF ne nl] obtain sc where
    "main_measure (fst ?g) (fst ?p) (cfg_v cfg) (fst ?d) = Inr sc" by blast
  then have "main_generate G cfg s = Inr (sc, snd ?d)"
    using ne assms(2) by (simp add: main_generate_def Let_def split_def np_normal_def)
  then show ?thesis by blast
qed

subsection \<open>Relative times before noise\<close>

text \<open>
  C10. With the true travel times \<open>t\<close> of the stations (the speed not zero) and
  \<open>ref\<close> the index \<open>np.argmin\<close> returns for them, the relative time
  \<open>t[i] - t[ref]\<close> before noise is nonnegative for every station and zero at \<open>ref\<close>.
\<close>

theorem reference_relative_times:
  assumes "v \<noteq> 0" and "np_argmin (travel_times stations true_point v) = Inr ref"
  shows "ref < length stations
       \<and> (\<exists>rel. relative_to (travel_times stations true_point v) (int ref) = Inr rel
              \<and> length rel = length stations
              \<and> (\<forall>i < length stations.
                    rel ! i = travel_times stations true_point v ! i
                                - travel_times stations true_point v ! ref
                    \<and> 0 \<le> rel ! i)
              \<and> rel ! ref = 0)"
proof -
  let ?t = "travel_times stations true_point v"
  from np_argmin_Inr[OF assms(2)]
  have lt: "ref < length ?t" and least: "\<forall>j<length ?t. ?t ! ref \<le> ?t ! j" by auto
  have rel: "relative_to ?t (int ref) = Inr (map (\<lambda>x. x - ?t ! ref) ?t)"
    using lt by (rule relative_to_nat)
  have "\<forall>i < length stations. map (\<lambda>x. x - ?t ! ref) ?t ! i = ?t ! i - ?t ! ref
            \<and> 0 \<le> map (\<lambda>x. x - ?t ! ref) ?t ! i"
    using least by (simp add: length_travel_times)
  moreover have "map (\<lambda>x. x - ?t ! ref) ?t ! ref = 0" using lt by simp
  ultimately show ?thesis using lt rel by (simp add: length_travel_times)
qed

theorem reference_relative_times_witness:
  "np_argmin (travel_times [Vec3 3 4 0, Vec3 0 0 0] (Vec3 0 0 0) 1) = Inr 1
   \<and> (\<exists>rel. relative_to (travel_times [Vec3 3 4 0, Vec3 0 0 0] (Vec3 0 0 0) 1) (int 1) = Inr rel
          \<and> rel ! 1 = 0)"
proof -
  have a: "np_argmin (travel_times [Vec3 3 4 0, Vec3 0 0 0] (Vec3 0 0 0) 1) = Inr 1"
    by (simp add: np_argmin_def travel_times_def norm3_def sub3_def)
  have "(1::real) \<noteq> 0" by simp
  from reference_relative_times[OF this a] show ?thesis using a by auto
qed

subsection \<open>The generated scenario\<close>

text \<open>
  C3. In every generated scenario (the speed not zero) the reference index is the
  (first) argmin of the true travel times \<open>\<parallel>stations[i] - true_point\<parallel> / v\<close>; the noise
  that \<open>np.random.normal\<close> draws is added to each travel time; and the measured
  relative time of every station is its noisy travel time minus the noisy travel time
  of the reference station.
\<close>

theorem generated_scenario_measurements:
  assumes "cfg_v cfg \<noteq> 0" and "main_generate G cfg s = Inr (sc, s')"
  shows "\<exists>noise.
           sc_stations sc = fst (gen_station_positions G (nat (cfg_n cfg)) (cfg_rad cfg) s)
         \<and> sc_true_point sc =
               fst (gen_true_point G (cfg_rad cfg) (cfg_dmin cfg) (cfg_dmax cfg)
                     (snd (gen_station_positions G (nat (cfg_n cfg)) (cfg_rad cfg) s)))
         \<and> np_normal G 0 (cfg_noise_std cfg) (length (sc_stations sc))
               (snd (gen_true_point G (cfg_rad cfg) (cfg_dmin cfg) (cfg_dmax cfg)
                     (snd (gen_station_positions G (nat (cfg_n cfg)) (cfg_rad cfg) s))))
             = Inr (noise, s')
         \<and> length noise = length (sc_stations sc)
         \<and> sc_true_times sc = travel_times (sc_stations sc) (sc_true_point sc) (cfg_v cfg)
         \<and> np_argmin (sc_true_times sc) = Inr (sc_ref_index sc)
         \<and> sc_ref_index sc < length (sc_stations sc)
         \<and> (\<forall>i < length (sc_stations sc).
               sc_true_times sc ! sc_ref_index sc \<le> sc_true_times sc ! i
             \<and> sc_noisy_times sc ! i = sc_true_times sc ! i + noise ! i
             \<and> sc_measured_rel_times sc ! i
                  = sc_noisy_times sc ! i - sc_noisy_times sc ! sc_ref_index sc)"
proof -
  let ?g = "gen_station_positions G (nat (cfg_n cfg)) (cfg_rad cfg) s"
  let ?p = "gen_true_point G (cfg_rad cfg) (cfg_dmin cfg) (cfg_dmax cfg) (snd ?g)"
  from main_generate_Inr[OF assms(2)] obtain noise where
    n: "np_normal G 0 (cfg_noise_std cfg) (nat (cfg_n cfg)) (snd ?p) = Inr (noise, s')"
    and ln: "length noise = nat (cfg_n cfg)"
    and m: "main_measure (fst ?g) (fst ?p) (cfg_v cfg) noise = Inr sc"
    by blast
  have len: "length (fst ?g) = nat (cfg_n cfg)" by (rule length_gen_station_positions)
  from main_measure_Inr[OF m]
  have st: "sc_stations sc = fst ?g" and tp: "sc_true_point sc = fst ?p"
    and tt: "sc_true_times sc = travel_times (fst ?g) (fst ?p) (cfg_v cfg)"
    and am: "np_argmin (travel_times (fst ?g) (fst ?p) (cfg_v cfg)) = Inr (sc_ref_index sc)"
    and ad: "np_add (travel_times (fst ?g) (fst ?p) (cfg_v cfg)) noise = Inr (sc_noisy_times sc)"
    and re: "relative_to (sc_noisy_times sc) (int (sc_ref_index sc))
               = Inr (sc_measured_rel_times sc)"
    by simp_all
  have lt: "length (sc_true_times sc) = length (sc_stations sc)"
    by (simp add: tt st length_travel_times)
  from np_argmin_Inr[OF am]
  have r: "sc_ref_index sc < length (sc_stations sc)"
    and least: "\<forall>j < length (sc_stations sc).
                  sc_true_times sc ! sc_ref_index sc \<le> sc_true_times sc ! j"
    by (simp_all add: tt st length_travel_times)
  have noisy: "sc_noisy_times sc = map2 (\<lambda>x y. x + y) (sc_true_times sc) noise"
    using ad np_add_same_length[of "travel_times (fst ?g) (fst ?p) (cfg_v cfg)" noise]
    by (simp add: tt ln len length_travel_times)
  have meas: "sc_measured_rel_times sc
                = map (\<lambda>x. x - sc_noisy_times sc ! sc_ref_index sc) (sc_noisy_times sc)"
    using relative_to_Inr[OF re] by simp
  have ent: "sc_noisy_times sc ! i = sc_true_times sc ! i + noise ! i
           \<and> sc_measured_rel_times sc ! i
                = sc_noisy_times sc ! i - sc_noisy_times sc ! sc_ref_index sc"
    if "i < length (sc_stations sc)" for i
  proof -
    have "i < length (sc_noisy_times sc)" using that lt ln len st by (simp add: noisy)
    moreover have "sc_noisy_times sc ! i = sc_true_times sc ! i + noise ! i"
      using that lt ln len st by (simp add: noisy)
    ultimately show ?thesis by (subst meas) simp
  qed
  have "np_normal G 0 (cfg_noise_std cfg) (length (sc_stations sc)) (snd ?p) = Inr (noise, s')"
    using n by (simp add: st len)
  moreover have "length noise = length (sc_stations sc)" by (simp add: ln st len)
  moreover have "sc_true_times sc = travel_times (sc_stations sc) (sc_true_point sc) (cfg_v cfg)"
    by (simp add: tt st tp)
  moreover have "np_argmin (sc_true_times sc) = Inr (sc_ref_index sc)" using am by (simp add: tt)
  ultimately show ?thesis using st tp r least ent by blast
qed

theorem generated_scenario_measurements_witness:
  "\<exists>sc s'. main_generate replay main_config (replicate 24 0 @ [1, - 2, 3, - 1, 2, 1, - 3]) = Inr (sc, s')
     \<and> np_argmin (sc_true_times sc) = Inr (sc_ref_index sc)
     \<and> (\<forall>i < length (sc_stations sc).
           sc_measured_rel_times sc ! i
             = sc_noisy_times sc ! i - sc_noisy_times sc ! sc_ref_index sc)"
proof -
  have "1 \<le> cfg_n main_config" and "0 \<le> cfg_noise_std main_config"
    by (simp_all add: main_config_def)
  from main_generate_ok[OF this, of replay "replicate 24 0 @ [1, - 2, 3, - 1, 2, 1, - 3]"]
  obtain sc s' where
    g: "main_generate replay main_config (replicate 24 0 @ [1, - 2, 3, - 1, 2, 1, - 3]) = Inr (sc, s')"
    by blast
  have "cfg_v main_config \<noteq> 0" by (simp add: main_config_def)
  from generated_scenario_measurements[OF this g] g show ?thesis by blast
qed

subsection \<open>The measured time of the reference station\<close>

text \<open>
  C5 (as amended). The measured relative times are the noisy travel times minus the
  noisy travel time of the reference station, so in every generated scenario (the speed
  not zero), whatever the noise, the measured relative time at the reference index is
  zero.
\<close>

theorem measured_reference_time_zero:
  assumes "cfg_v cfg \<noteq> 0" and "main_generate G cfg s = Inr (sc, s')"
  shows "sc_ref_index sc < length (sc_measured_rel_times sc)
       \<and> sc_measured_rel_times sc ! sc_ref_index sc = 0"
proof -
  from main_generate_Inr[OF assms(2)] obtain noise where
    "main_measure (fst (gen_station_positions G (nat (cfg_n cfg)) (cfg_rad cfg) s))
       (fst (gen_true_point G (cfg_rad cfg) (cfg_dmin cfg) (cfg_dmax cfg)
          (snd (gen_station_positions G (nat (cfg_n cfg)) (cfg_rad cfg) s))))
       (cfg_v cfg) noise = Inr sc"
    by blast
  then show ?thesis by (rule main_measure_ref_zero)
qed

theorem measured_reference_time_zero_witness:
  "\<exists>sc s'. main_generate replay main_config (replicate 24 0 @ [2, - 1, 3, 1, - 2, 1, - 3]) = Inr (sc, s')
     \<and> sc_measured_rel_times sc ! sc_ref_index sc = 0"
proof -
  have "1 \<le> cfg_n main_config" and "0 \<le> cfg_noise_std main_config"
    by (simp_all add: main_config_def)
  from main_generate_ok[OF this, of replay "replicate 24 0 @ [2, - 1, 3, 1, - 2, 1, - 3]"]
  obtain sc s' where
    g: "main_generate replay main_config (replicate 24 0 @ [2, - 1, 3, 1, - 2, 1, - 3]) = Inr (sc, s')"
    by blast
  have "cfg_v main_config \<noteq> 0" by (simp add: main_config_def)
  from measured_reference_time_zero[OF this g] g show ?thesis by blast
qed

text \<open>
  The specification expects a noise realisation with a nonzero measured time at the
  reference index. Over every configuration with a speed other than zero and every
  sequence of draws there is none.
\<close>

theorem measured_reference_time_nonzero_counterexample:
  "\<not> (\<exists>cfg draws sc s'. 0 < cfg_noise_std cfg \<and> cfg_v cfg \<noteq> 0
          \<and> main_generate replay cfg draws = Inr (sc, s')
          \<and> sc_measured_rel_times sc ! sc_ref_index sc \<noteq> 0)"
proof
  assume "\<exists>cfg draws sc s'. 0 < cfg_noise_std cfg \<and> cfg_v cfg \<noteq> 0
          \<and> main_generate replay cfg draws = Inr (sc, s')
          \<and> sc_measured_rel_times sc ! sc_ref_index sc \<noteq> 0"
  then obtain cfg draws sc s' where
    g: "main_generate replay cfg draws = Inr (sc, s')"
    and nz: "sc_measured_rel_times sc ! sc_ref_index sc \<noteq> 0"
    by blast
  from main_generate_Inr[OF g] obtain noise where
    "main_measure (fst (gen_station_positions replay (nat (cfg_n cfg)) (cfg_rad cfg) draws))
       (fst (gen_true_point replay (cfg_rad cfg) (cfg_dmin cfg) (cfg_dmax cfg)
          (snd (gen_station_positions replay (nat (cfg_n cfg)) (cfg_rad cfg) draws))))
       (cfg_v cfg) noise = Inr sc"
    by blast
  from main_measure_ref_zero[OF this] nz show False by simp
qed

subsection \<open>Configurations the program accepts\<close>

text \<open>
  C7 (as amended). The program checks no configuration value. For every station count
  of at least one and every nonnegative noise deviation, whatever the speed and the
  depth bounds, the generator returns a scenario with that many stations and measured
  relative times, and no error.
\<close>

theorem main_generate_accepts:
  assumes "1 \<le> cfg_n cfg" and "0 \<le> cfg_noise_std cfg"
  shows "\<exists>sc s'. main_generate G cfg s = Inr (sc, s')
           \<and> length (sc_stations sc) = nat (cfg_n cfg)
           \<and> length (sc_measured_rel_times sc) = nat (cfg_n cfg)"
proof -
  from main_generate_ok[OF assms, of G s] obtain sc s' where
    g: "main_generate G cfg s = Inr (sc, s')" by blast
  from main_generate_Inr[OF g] obtain noise where
    ln: "length noise = nat (cfg_n cfg)"
    and m: "main_measure (fst (gen_station_positions G (nat (cfg_n cfg)) (cfg_rad cfg) s))
       (fst (gen_true_point G (cfg_rad cfg) (cfg_dmin cfg) (cfg_dmax cfg)
          (snd (gen_station_positions G (nat (cfg_n cfg)) (cfg_rad cfg) s))))
       (cfg_v cfg) noise = Inr sc"
    by blast
  let ?st = "fst (gen_station_positions G (nat (cfg_n cfg)) (cfg_rad cfg) s)"
  have len: "length ?st = nat (cfg_n cfg)" by (rule length_gen_station_positions)
  from main_measure_Inr[OF m]
  have st: "sc_stations sc = ?st"
    and ad: "np_add (travel_times ?st (sc_true_point sc) (cfg_v cfg)) noise = Inr (sc_noisy_times sc)"
    and re: "relative_to (sc_noisy_times sc) (int (sc_ref_index sc))
               = Inr (sc_measured_rel_times sc)"
    by simp_all
  have "sc_noisy_times sc = map2 (\<lambda>x y. x + y) (travel_times ?st (sc_true_point sc) (cfg_v cfg)) noise"
    using ad np_add_same_length[of "travel_times ?st (sc_true_point sc) (cfg_v cfg)" noise]
    by (simp add: ln len length_travel_times)
  then have "length (sc_noisy_times sc) = nat (cfg_n cfg)"
    by (simp add: ln len length_travel_times)
  moreover have "length (sc_measured_rel_times sc) = length (sc_noisy_times sc)"
    using relative_to_Inr[OF re] by simp
  ultimately show ?thesis using g st len by auto
qed

theorem main_generate_accepts_witness:
  "\<exists>sc s'. main_generate replay main_config [0, 0, 1 / 2] = Inr (sc, s')
     \<and> length (sc_stations sc) = 7 \<and> length (sc_measured_rel_times sc) = 7"
proof -
  have "1 \<le> cfg_n main_config" and "0 \<le> cfg_noise_std main_config"
    by (simp_all add: main_config_def)
  from main_generate_accepts[OF this, of replay "[0, 0, 1 / 2]"]
  show ?thesis by (simp add: main_config_def)
qed

text \<open>
  Three stations and a negative speed: the specification asks for an error before
  anything is generated, the program returns a scenario.
\<close>

theorem invalid_configuration_counterexample:
  "\<exists>sc s'. main_generate replay
       \<lparr>cfg_n = 3, cfg_rad = 30000, cfg_dmin = 500, cfg_dmax = 10000,
        cfg_v = - 5000, cfg_noise_std = 1 / 100\<rparr> [0, 0, 1 / 2] = Inr (sc, s')
     \<and> length (sc_stations sc) = 3"
proof -
  let ?cfg = "\<lparr>cfg_n = 3, cfg_rad = 30000, cfg_dmin = 500, cfg_dmax = 10000,
        cfg_v = - 5000, cfg_noise_std = 1 / 100\<rparr>"
  have "1 \<le> cfg_n ?cfg" and "0 \<le> cfg_noise_std ?cfg" by simp_all
  from main_generate_ok[OF this, of replay "[0, 0, 1 / 2]"] obtain sc s' where
    g: "main_generate replay ?cfg [0, 0, 1 / 2] = Inr (sc, s')" by blast
  from main_generate_Inr[OF g] obtain noise where
    "main_measure (fst (gen_station_positions replay (nat (cfg_n ?cfg)) (cfg_rad ?cfg) [0, 0, 1 / 2]))
       (fst (gen_true_point replay (cfg_rad ?cfg) (cfg_dmin ?cfg) (cfg_dmax ?cfg)
          (snd (gen_station_positions replay (nat (cfg_n ?cfg)) (cfg_rad ?cfg) [0, 0, 1 / 2]))))
       (cfg_v ?cfg) noise = Inr sc"
    by blast
  from main_measure_Inr[OF this]
  have "sc_stations sc = fst (gen_station_positions replay (nat (cfg_n ?cfg)) (cfg_rad ?cfg) [0, 0, 1 / 2])"
    by simp
  then have "length (sc_stations sc) = 3"
    using length_gen_station_positions[of replay "nat (cfg_n ?cfg)" "cfg_rad ?cfg" "[0, 0, 1 / 2]"]
    by simp
  with g show ?thesis by blast
qed

subsection \<open>The initial guess\<close>

lemma foldl_add3:
  "foldl add3 a rows = Vec3 (vx a + sum_list (map vx rows)) (vy a + sum_list (map vy rows))
                            (vz a + sum_list (map vz rows))"
  by (induction rows arbitrary: a) (simp_all add: add3_def add.assoc)

text \<open>
  C9. For every station array (with at least one station) the initial guess has the
  mean of the stations' x coordinates as x, the mean of their y coordinates as y, and
  \<open>-5000\<close> as z.
\<close>

theorem main_initial_guess_centroid:
  assumes "stations \<noteq> []"
  shows "main_initial_guess stations =
           Vec3 (sum_list (map vx stations) / real (length stations))
                (sum_list (map vy stations) / real (length stations))
                (- 5000)"
proof -
  have total: "foldl add3 (Vec3 0 0 0) stations
      = Vec3 (sum_list (map vx stations)) (sum_list (map vy stations)) (sum_list (map vz stations))"
    by (simp add: foldl_add3)
  have "np_mean_axis0 stations
      = Vec3 (sum_list (map vx stations) / real (length stations))
             (sum_list (map vy stations) / real (length stations))
             (sum_list (map vz stations) / real (length stations))"
    unfolding np_mean_axis0_def total by (simp add: Let_def)
  then show ?thesis by (simp add: main_initial_guess_def Let_def)
qed

theorem main_initial_guess_centroid_witness:
  "[Vec3 0 0 100, Vec3 4 0 (- 50), Vec3 2 6 0] \<noteq> []
   \<and> main_initial_guess [Vec3 0 0 100, Vec3 4 0 (- 50), Vec3 2 6 0] = Vec3 2 2 (- 5000)"
  using main_initial_guess_centroid [of "[Vec3 0 0 100, Vec3 4 0 (- 50), Vec3 2 6 0]"]
  by simp

subsection \<open>Degenerate station geometry\<close>

text \<open>
  C4 (as amended). Nothing in the program looks at the station geometry, the number of
  stations or the status of the solver's result. For every station array with as many
  measured times and a reference index in range, the residual function handed to
  \<open>least_squares\<close> returns a residual vector at every point, and whenever
  \<open>least_squares\<close> returns a result, its field \<open>x\<close> is the estimate of \<open>main\<close>.
\<close>

theorem main_solve_passes_result:
  assumes "ref_index < length stations" and "length measured_rel_times = length stations"
  shows "(\<forall>p. \<exists>r. residuals_time p stations measured_rel_times v (int ref_index) = Inr r
                 \<and> length r = length stations)
       \<and> (\<forall>res_opt.
             least_squares (\<lambda>p. residuals_time p stations measured_rel_times v (int ref_index))
               (main_initial_guess stations) = Inr res_opt
             \<longrightarrow> main_solve least_squares stations measured_rel_times v ref_index
                   = Inr (res_x res_opt))"
proof -
  have "residuals_time p stations measured_rel_times v (int ref_index)
          = Inr (map2 (\<lambda>x y. x - y)
                  (map (\<lambda>x. x - travel_times stations p v ! ref_index) (travel_times stations p v))
                  measured_rel_times)" for p
    using assms
    by (simp add: residuals_time_def relative_to_nat length_travel_times np_sub_def
        np_broadcast_def)
  then have "\<exists>r. residuals_time p stations measured_rel_times v (int ref_index) = Inr r
                 \<and> length r = length stations" for p
    using assms(2) by (simp add: length_travel_times)
  then show ?thesis by (simp add: main_solve_def Let_def)
qed

theorem main_solve_passes_result_witness:
  "(\<forall>p. \<exists>r. residuals_time p [Vec3 0 0 0, Vec3 500 0 0, Vec3 900 0 0] [0, 1 / 50, 3 / 50] 5000 (int 0)
             = Inr r \<and> length r = 3)
   \<and> main_solve (\<lambda>f x0. Inr \<lparr>res_x = x0, res_status = 2, res_success = True\<rparr>)
        [Vec3 0 0 0, Vec3 500 0 0, Vec3 900 0 0] [0, 1 / 50, 3 / 50] 5000 0
      = Inr (main_initial_guess [Vec3 0 0 0, Vec3 500 0 0, Vec3 900 0 0])"
  using main_solve_passes_result
    [of 0 "[Vec3 0 0 0, Vec3 500 0 0, Vec3 900 0 0]" "[0, 1 / 50, 3 / 50]" 5000
        "\<lambda>f x0. Inr \<lparr>res_x = x0, res_status = 2, res_success = True\<rparr>"]
  by (simp add: numeral_3_eq_3)

text \<open>
  Three collinear stations: when the solver returns a result marked as converged, \<open>main\<close>
  reports its point, whatever the measured times and the reference index.
\<close>

theorem degenerate_geometry_counterexample:
  "\<forall>measured_rel_times ref_index x.
     main_solve (\<lambda>f x0. Inr \<lparr>res_x = x, res_status = 1, res_success = True\<rparr>)
       [Vec3 0 0 0, Vec3 500 0 0, Vec3 900 0 0] measured_rel_times 5000 ref_index = Inr x"
  by (simp add: main_solve_def Let_def)

subsection \<open>The random source of a run\<close>

lemma gen_station_positions_state:
  "snd (gen_station_positions G k rad s) = ((\<lambda>t. snd (random_sample G t)) ^^ (3 * k)) s"
proof (induction k arbitrary: s)
  case 0
  then show ?case by simp
next
  case (Suc k)
  let ?f = "\<lambda>t. snd (random_sample G t)"
  have "snd (gen_station_positions G (Suc k) rad s)
          = snd (gen_station_positions G k rad (?f (?f (?f s))))"
    by (simp add: split_def Let_def np_uniform_def)
  also have "\<dots> = (?f ^^ (3 * k)) (?f (?f (?f s)))" by (rule Suc.IH)
  also have "?f (?f (?f s)) = (?f ^^ 3) s"
    by (simp add: numeral_3_eq_3)
  also have "(?f ^^ (3 * k)) ((?f ^^ 3) s) = (?f ^^ (3 * k + 3)) s"
    by (simp only: funpow_add o_apply)
  also have "3 * k + 3 = 3 * Suc k" by simp
  finally show ?case .
qed

text \<open>
  C8 (as amended). The generator functions take no random source: they draw from the
  process-wide generator and leave it advanced (\<open>gen_station_positions\<close> by three
  draws per station), and \<open>main\<close> first reseeds it from operating-system entropy,
  discarding the state it held. Two runs whose reseeding yields the same generator
  state produce the same stations, true point, reference index and measured relative
  times, whatever state the generator held before each run.
\<close>

theorem main_scenario_seeded:
  assumes "seed_from G e1 = seed_from G e2"
  shows "main_scenario G e1 s1 = main_scenario G e2 s2
       \<and> snd (gen_station_positions G k rad s)
           = ((\<lambda>t. snd (random_sample G t)) ^^ (3 * k)) s"
proof
  have "main_scenario G e1 s1 = main_generate G main_config (seed_from G e1)"
    by (simp add: main_scenario_def)
  also have "\<dots> = main_generate G main_config (seed_from G e2)"
    by (simp only: assms)
  also have "\<dots> = main_scenario G e2 s2"
    by (simp add: main_scenario_def)
  finally show "main_scenario G e1 s1 = main_scenario G e2 s2" .
next
  show "snd (gen_station_positions G k rad s)
           = ((\<lambda>t. snd (random_sample G t)) ^^ (3 * k)) s"
    by (rule gen_station_positions_state)
qed

theorem main_scenario_seeded_witness:
  "seed_from replay [0, 0, 1 / 2] = seed_from replay [0, 0, 1 / 2]
   \<and> main_scenario replay [0, 0, 1 / 2] [1, 2, 3] = main_scenario replay [0, 0, 1 / 2] []
   \<and> snd (gen_station_positions replay 1 30000 [0, 0, 1 / 2, 7, 8]) = [7, 8]"
  using main_scenario_seeded
    [of replay "[0, 0, 1 / 2]" "[0, 0, 1 / 2]" "[1, 2, 3]" "[]" 1 30000 "[0, 0, 1 / 2, 7, 8]"]
  by (simp add: numeral_3_eq_3 replay_def)

lemma first_station_replay:
  "hd (fst (gen_station_positions replay (Suc k) rad [0, 0, u])) = Vec3 0 0 (- 500 + 1000 * u)"
  by (simp add: split_def Let_def replay_def np_uniform_def)

text \<open>
  Two runs started from the same generator state (the only thing a caller could set)
  with different entropy: the stations differ.
\<close>

theorem injected_seed_counterexample:
  "\<exists>sc1 t1 sc2 t2.
      main_scenario replay [0, 0, 0] [1, 2, 3] = Inr (sc1, t1)
    \<and> main_scenario replay [0, 0, 1 / 2] [1, 2, 3] = Inr (sc2, t2)
    \<and> sc_stations sc1 \<noteq> sc_stations sc2"
proof -
  have c: "1 \<le> cfg_n main_config" "0 \<le> cfg_noise_std main_config"
    by (simp_all add: main_config_def)
  have n7: "nat (cfg_n main_config) = Suc 6" by (simp add: main_config_def)
  from main_generate_ok[OF c, of replay "[0, 0, 0]"] obtain sc1 t1 where
    g1: "main_generate replay main_config [0, 0, 0] = Inr (sc1, t1)" by blast
  from main_generate_ok[OF c, of replay "[0, 0, 1 / 2]"] obtain sc2 t2 where
    g2: "main_generate replay main_config [0, 0, 1 / 2] = Inr (sc2, t2)" by blast
  from main_generate_Inr[OF g1] obtain noise1 where
    "main_measure (fst (gen_station_positions replay (nat (cfg_n main_config)) (cfg_rad main_config) [0, 0, 0]))
       (fst (gen_true_point replay (cfg_rad main_config) (cfg_dmin main_config) (cfg_dmax main_config)
          (snd (gen_station_positions replay (nat (cfg_n main_config)) (cfg_rad main_config) [0, 0, 0]))))
       (cfg_v main_config) noise1 = Inr sc1"
    by blast
  from main_measure_Inr[OF this]
  have s1: "sc_stations sc1 = fst (gen_station_positions replay (Suc 6) (cfg_rad main_config) [0, 0, 0])"
    by (simp add: n7)
  from main_generate_Inr[OF g2] obtain noise2 where
    "main_measure (fst (gen_station_positions replay (nat (cfg_n main_config)) (cfg_rad main_config) [0, 0, 1 / 2]))
       (fst (gen_true_point replay (cfg_rad main_config) (cfg_dmin main_config) (cfg_dmax main_config)
          (snd (gen_station_positions replay (nat (cfg_n main_config)) (cfg_rad main_config) [0, 0, 1 / 2]))))
       (cfg_v main_config) noise2 = Inr sc2"
    by blast
  from main_measure_Inr[OF this]
  have s2: "sc_stations sc2 = fst (gen_station_positions replay (Suc 6) (cfg_rad main_config) [0, 0, 1 / 2])"
    by (simp add: n7)
  have "hd (sc_stations sc1) = Vec3 0 0 (- 500)"
    by (simp only: s1 first_station_replay) simp
  moreover have "hd (sc_stations sc2) = Vec3 0 0 0"
    by (simp only: s2 first_station_replay) simp
  ultimately have "sc_stations sc1 \<noteq> sc_stations sc2" by auto
  moreover have "main_scenario replay [0, 0, 0] [1, 2, 3] = Inr (sc1, t1)"
    using g1 by (simp add: main_scenario_def replay_def)
  moreover have "main_scenario replay [0, 0, 1 / 2] [1, 2, 3] = Inr (sc2, t2)"
    using g2 by (simp add: main_scenario_def replay_def)
  ultimately show ?thesis by blast
qed

subsection \<open>Recovery without noise\<close>

lemma sqrt_8900: "sqrt 79210000 = 8900" by (rule real_sqrt_unique) simp_all
lemma sqrt_9400: "sqrt 88360000 = 9400" by (rule real_sqrt_unique) simp_all
lemma sqrt_11600: "sqrt 134560000 = 11600" by (rule real_sqrt_unique) simp_all
lemma sqrt_12100: "sqrt 146410000 = 12100" by (rule real_sqrt_unique) simp_all

lemma travel_times_near:
  "travel_times [Vec3 8000 0 (- 150), Vec3 0 8000 (- 150), Vec3 (- 8000) 0 (- 150), Vec3 8400 400 150]
     (Vec3 0 0 (- 4050)) 5000 = [89 / 50, 89 / 50, 89 / 50, 47 / 25]"
  by (simp add: travel_times_def norm3_def sub3_def sqrt_8900 sqrt_9400)

lemma travel_times_far:
  "travel_times [Vec3 8000 0 (- 150), Vec3 0 8000 (- 150), Vec3 (- 8000) 0 (- 150), Vec3 8400 400 150]
     (Vec3 0 0 (- 8550)) 5000 = [58 / 25, 58 / 25, 58 / 25, 121 / 50]"
  by (simp add: travel_times_def norm3_def sub3_def sqrt_11600 sqrt_12100)

lemma measure_near:
  "main_measure [Vec3 8000 0 (- 150), Vec3 0 8000 (- 150), Vec3 (- 8000) 0 (- 150), Vec3 8400 400 150]
     (Vec3 0 0 (- 4050)) 5000 [0, 0, 0, 0] =
   Inr \<lparr>sc_stations = [Vec3 8000 0 (- 150), Vec3 0 8000 (- 150), Vec3 (- 8000) 0 (- 150),
                         Vec3 8400 400 150],
        sc_true_point = Vec3 0 0 (- 4050),
        sc_true_times = [89 / 50, 89 / 50, 89 / 50, 47 / 25], sc_ref_index = 0,
        sc_noisy_times = [89 / 50, 89 / 50, 89 / 50, 47 / 25],
        sc_measured_rel_times = [0, 0, 0, 1 / 10]\<rparr>"
  by (simp add: main_measure_def Let_def travel_times_near np_argmin_def np_add_def
      np_broadcast_def relative_to_def np_index_def)

lemma measure_far:
  "main_measure [Vec3 8000 0 (- 150), Vec3 0 8000 (- 150), Vec3 (- 8000) 0 (- 150), Vec3 8400 400 150]
     (Vec3 0 0 (- 8550)) 5000 [0, 0, 0, 0] =
   Inr \<lparr>sc_stations = [Vec3 8000 0 (- 150), Vec3 0 8000 (- 150), Vec3 (- 8000) 0 (- 150),
                         Vec3 8400 400 150],
        sc_true_point = Vec3 0 0 (- 8550),
        sc_true_times = [58 / 25, 58 / 25, 58 / 25, 121 / 50], sc_ref_index = 0,
        sc_noisy_times = [58 / 25, 58 / 25, 58 / 25, 121 / 50],
        sc_measured_rel_times = [0, 0, 0, 1 / 10]\<rparr>"
  by (simp add: main_measure_def Let_def travel_times_far np_argmin_def np_add_def
      np_broadcast_def relative_to_def np_index_def)

lemma depth_gap_le_error: "\<bar>vz a - vz b\<bar> \<le> location_error a b"
  unfolding location_error_def norm3_def sub3_def
  by (rule real_le_rsqrt) (simp add: power2_abs)

text \<open>
  Four stations, not in one plane (three at height \<open>-150\<close> and not on one line, one at
  height \<open>150\<close>), all within the placement disk and the elevation band of the
  generator, speed 5000, no noise. The true points \<open>(0, 0, -4050)\<close> and
  \<open>(0, 0, -8550)\<close> give the same reference index and the same measured relative times,
  hence the same call of \<open>least_squares\<close>; no solver is within one metre of both.
\<close>

theorem zero_noise_recovery_counterexample:
  "\<not> coplanar (Vec3 8000 0 (- 150)) (Vec3 0 8000 (- 150)) (Vec3 (- 8000) 0 (- 150))
       (Vec3 8400 400 150)
   \<and> (\<forall>least_squares.
     \<not> ((\<exists>sc est.
            main_measure [Vec3 8000 0 (- 150), Vec3 0 8000 (- 150), Vec3 (- 8000) 0 (- 150),
                          Vec3 8400 400 150] (Vec3 0 0 (- 4050)) 5000 [0, 0, 0, 0] = Inr sc
          \<and> main_solve least_squares (sc_stations sc) (sc_measured_rel_times sc) 5000
                (sc_ref_index sc) = Inr est
          \<and> location_error (sc_true_point sc) est \<le> 1)
       \<and> (\<exists>sc est.
            main_measure [Vec3 8000 0 (- 150), Vec3 0 8000 (- 150), Vec3 (- 8000) 0 (- 150),
                          Vec3 8400 400 150] (Vec3 0 0 (- 8550)) 5000 [0, 0, 0, 0] = Inr sc
          \<and> main_solve least_squares (sc_stations sc) (sc_measured_rel_times sc) 5000
                (sc_ref_index sc) = Inr est
          \<and> location_error (sc_true_point sc) est \<le> 1)))"
proof (intro conjI allI notI)
  assume "coplanar (Vec3 8000 0 (- 150)) (Vec3 0 8000 (- 150)) (Vec3 (- 8000) 0 (- 150))
       (Vec3 8400 400 150)"
  then show False by (simp add: coplanar_def sub3_def)
next
  fix least_squares :: solver
  let ?st = "[Vec3 8000 0 (- 150), Vec3 0 8000 (- 150), Vec3 (- 8000) 0 (- 150), Vec3 8400 400 150]"
  assume both: "(\<exists>sc est.
            main_measure ?st (Vec3 0 0 (- 4050)) 5000 [0, 0, 0, 0] = Inr sc
          \<and> main_solve least_squares (sc_stations sc) (sc_measured_rel_times sc) 5000
                (sc_ref_index sc) = Inr est
          \<and> location_error (sc_true_point sc) est \<le> 1)
       \<and> (\<exists>sc est.
            main_measure ?st (Vec3 0 0 (- 8550)) 5000 [0, 0, 0, 0] = Inr sc
          \<and> main_solve least_squares (sc_stations sc) (sc_measured_rel_times sc) 5000
                (sc_ref_index sc) = Inr est
          \<and> location_error (sc_true_point sc) est \<le> 1)"
  then obtain est1 where
    e1: "main_solve least_squares ?st [0, 0, 0, 1 / 10] 5000 0 = Inr est1"
    and d1: "location_error (Vec3 0 0 (- 4050)) est1 \<le> 1"
    by (auto simp: measure_near)
  from both obtain est2 where
    e2: "main_solve least_squares ?st [0, 0, 0, 1 / 10] 5000 0 = Inr est2"
    and d2: "location_error (Vec3 0 0 (- 8550)) est2 \<le> 1"
    by (auto simp: measure_far)
  from e1 e2 have same: "est2 = est1" by simp
  have "\<bar>vz (Vec3 0 0 (- 4050)) - vz est1\<bar> \<le> 1"
    using depth_gap_le_error[of "Vec3 0 0 (- 4050)" est1] d1 by linarith
  moreover have "\<bar>vz (Vec3 0 0 (- 8550)) - vz est1\<bar> \<le> 1"
    using depth_gap_le_error[of "Vec3 0 0 (- 8550)" est2] d2 same by simp
  ultimately show False by simp
qed

lemma normal_draws_zero: "fst (normal_draws G 0 0 k s) = replicate k 0"
  by (induction k arbitrary: s) (simp_all add: split_def Let_def)

lemma map2_add_zeros: "length xs = k \<Longrightarrow> map2 (\<lambda>x y. x + y) xs (replicate k (0::real)) = xs"
  by (induction xs arbitrary: k) auto

lemma map2_sub_self: "map2 (\<lambda>x y. x - y) xs xs = replicate (length xs) (0::real)"
  by (induction xs) auto

text \<open>
  C2 (as amended). With a noise deviation of zero and a positive speed, in every
  generated scenario the true point makes every residual zero against the measured
  relative times and the reference index of the scenario: it is a minimiser of the sum
  of squares that \<open>least_squares\<close> is given. That the estimate returned from the
  initial guess is near the true point does not follow.
\<close>

theorem zero_noise_true_point_residuals:
  assumes "cfg_noise_std cfg = 0" and "0 < cfg_v cfg"
    and "main_generate G cfg s = Inr (sc, s')"
  shows "residuals_time (sc_true_point sc) (sc_stations sc) (sc_measured_rel_times sc)
           (cfg_v cfg) (int (sc_ref_index sc)) = Inr (replicate (length (sc_stations sc)) 0)"
proof -
  let ?g = "gen_station_positions G (nat (cfg_n cfg)) (cfg_rad cfg) s"
  let ?p = "gen_true_point G (cfg_rad cfg) (cfg_dmin cfg) (cfg_dmax cfg) (snd ?g)"
  let ?t = "travel_times (fst ?g) (fst ?p) (cfg_v cfg)"
  from main_generate_Inr[OF assms(3)] obtain noise where
    n: "np_normal G 0 (cfg_noise_std cfg) (nat (cfg_n cfg)) (snd ?p) = Inr (noise, s')"
    and m: "main_measure (fst ?g) (fst ?p) (cfg_v cfg) noise = Inr sc"
    by blast
  have len: "length (fst ?g) = nat (cfg_n cfg)" by (rule length_gen_station_positions)
  have noise: "noise = replicate (nat (cfg_n cfg)) 0"
    using n normal_draws_zero[of G "nat (cfg_n cfg)" "snd ?p"]
    by (auto simp: np_normal_def assms(1))
  from main_measure_Inr[OF m]
  have st: "sc_stations sc = fst ?g" and tp: "sc_true_point sc = fst ?p"
    and am: "np_argmin ?t = Inr (sc_ref_index sc)"
    and ad: "np_add ?t noise = Inr (sc_noisy_times sc)"
    and re: "relative_to (sc_noisy_times sc) (int (sc_ref_index sc))
               = Inr (sc_measured_rel_times sc)"
    by simp_all
  have lt: "length ?t = nat (cfg_n cfg)" by (simp add: length_travel_times len)
  have "np_add ?t noise = Inr (map2 (\<lambda>x y. x + y) ?t noise)"
    by (rule np_add_same_length) (simp add: noise lt)
  then have noisy: "sc_noisy_times sc = ?t"
    using ad map2_add_zeros[OF lt] by (simp add: noise)
  from np_argmin_Inr[OF am] have r: "sc_ref_index sc < length ?t" by simp
  have meas: "sc_measured_rel_times sc = map (\<lambda>x. x - ?t ! sc_ref_index sc) ?t"
    using relative_to_Inr[OF re] by (simp add: noisy)
  have "residuals_time (fst ?p) (fst ?g) (sc_measured_rel_times sc) (cfg_v cfg)
          (int (sc_ref_index sc))
        = np_sub (map (\<lambda>x. x - ?t ! sc_ref_index sc) ?t) (sc_measured_rel_times sc)"
    using r by (simp add: residuals_time_def relative_to_nat)
  also have "\<dots> = Inr (replicate (length (fst ?g)) 0)"
    by (simp add: meas np_sub_def np_broadcast_def map2_sub_self length_travel_times)
  finally show ?thesis by (simp add: st tp)
qed

theorem zero_noise_true_point_residuals_witness:
  "\<exists>sc s'. main_generate replay (main_config\<lparr>cfg_noise_std := 0\<rparr>) [0, 0, 1 / 2, 0, 0, 1 / 4] = Inr (sc, s')
     \<and> residuals_time (sc_true_point sc) (sc_stations sc) (sc_measured_rel_times sc)
           5000 (int (sc_ref_index sc)) = Inr (replicate (length (sc_stations sc)) 0)"
proof -
  let ?cfg = "main_config\<lparr>cfg_noise_std := 0\<rparr>"
  have a: "cfg_noise_std ?cfg = 0" and b: "0 < cfg_v ?cfg" and c: "1 \<le> cfg_n ?cfg"
    and d: "0 \<le> cfg_noise_std ?cfg" and v: "cfg_v ?cfg = 5000"
    by (simp_all add: main_config_def)
  from main_generate_ok[OF c d, of replay "[0, 0, 1 / 2, 0, 0, 1 / 4]"] obtain sc s' where
    g: "main_generate replay ?cfg [0, 0, 1 / 2, 0, 0, 1 / 4] = Inr (sc, s')" by blast
  from zero_noise_true_point_residuals[OF a b g] g show ?thesis unfolding v by blast
qed

subsection \<open>A shift of the measured times\<close>

lemma map2_sub_shift:
  "map2 (\<lambda>x y. x - y) a (map (\<lambda>t. t + delta) b) = map (\<lambda>x. x - delta) (map2 (\<lambda>x y. x - y) a b)"
  for delta :: real
proof (induction a arbitrary: b)
  case Nil
  then show ?case by simp
next
  case (Cons x a)
  then show ?case by (cases b) simp_all
qed

lemma np_sub_shift:
  "np_sub a (map (\<lambda>t. t + delta) b) =
     (case np_sub a b of Inl e \<Rightarrow> Inl e | Inr r \<Rightarrow> Inr (map (\<lambda>x. x - delta) r))"
proof -
  have one: "length b = 1 \<Longrightarrow> hd (map (\<lambda>t. t + delta) b) = hd b + delta"
    by (cases b) simp_all
  show ?thesis
    unfolding np_sub_def np_broadcast_def
    by (simp add: map2_sub_shift one algebra_simps)
qed

text \<open>
  Adding a constant to every measured relative time lowers every residual by that
  constant, at every point and for every reference index (the speed not zero); an
  error is the same error.
\<close>

theorem residuals_time_shift:
  assumes "v \<noteq> 0"
  shows "residuals_time p stations (map (\<lambda>t. t + delta) rel_times) v ref_index =
     (case residuals_time p stations rel_times v ref_index of
        Inl e \<Rightarrow> Inl e
      | Inr r \<Rightarrow> Inr (map (\<lambda>x. x - delta) r))"
proof (cases "relative_to (travel_times stations p v) ref_index")
  case (Inl e)
  then show ?thesis by (simp add: residuals_time_def)
next
  case (Inr a)
  have "np_sub a (map (\<lambda>t. t + delta) rel_times) =
          (case np_sub a rel_times of Inl e \<Rightarrow> Inl e | Inr r \<Rightarrow> Inr (map (\<lambda>x. x - delta) r))"
    by (rule np_sub_shift)
  with Inr show ?thesis by (simp add: residuals_time_def)
qed

theorem residuals_time_shift_witness:
  "residuals_time (Vec3 0 0 0) [Vec3 3 4 0, Vec3 0 0 0] [5, 1] 1 1 = Inr [0, - 1]
   \<and> residuals_time (Vec3 0 0 0) [Vec3 3 4 0, Vec3 0 0 0] (map (\<lambda>t. t + 2) [5, 1]) 1 1
       = Inr [- 2, - 3]"
proof -
  have v: "(1::real) \<noteq> 0" by simp
  have a: "residuals_time (Vec3 0 0 0) [Vec3 3 4 0, Vec3 0 0 0] [5, 1] 1 1 = Inr [0, - 1]"
    by (simp add: residuals_time_def travel_times_def norm3_def sub3_def relative_to_def
        np_index_def np_sub_def np_broadcast_def)
  from residuals_time_shift[OF v, of "Vec3 0 0 0" "[Vec3 3 4 0, Vec3 0 0 0]" 2 "[5, 1]" 1]
  show ?thesis by (simp add: a)
qed

end
